theory Spec2Isabelle
  imports Main "HOL-Library.AList"
begin

section \<open>Data model\<close>

text \<open>
  The three Mongoose collections the payment code touches, the gateway client, the
  process environment and the request and response shapes of the payment controller.
  An \<open>ObjectId\<close> is a natural number, a \<open>Date\<close> is its millisecond count, a
  \<open>String\<close> with an \<open>enum\<close> stays a string, as the code compares and assigns the
  literals themselves.
\<close>

type_synonym object_id = nat
type_synonym date = int

datatype mvalue = Text string | IdText object_id

type_synonym metadata_bag = "(string \<times> mvalue) list"

text \<open>The gateway's answer to \<open>transaction.verify\<close>: \<open>response.data\<close>. Its \<open>paid_at\<close>
  is \<open>null\<close> (\<open>None\<close>) or a timestamp.\<close>

record verification_data =
  gw_status :: string
  paid_at :: "date option"

text \<open>The \<open>metadata\<close> of a webhook's \<open>data\<close>: not a string (an object, or absent), or
  a string that \<open>JSON.parse\<close> accepts or rejects.\<close>

datatype hook_metadata = MetaObject | MetaJsonText | MetaBadText

record charge_data =
  c_reference :: string
  c_metadata :: hook_metadata
  c_paid_at :: "date option"

record payment_metadata =
  entries :: metadata_bag
  paystackData :: "verification_data option"
  paystackWebhookData :: "charge_data option"

text \<open>\<open>paymentSchema\<close>. \<open>paidAt = None\<close> is the unset field.\<close>

record payment =
  pid :: object_id
  user :: object_id
  application :: object_id
  track :: string
  program :: string
  amount :: int
  currency :: string
  reference :: string
  status :: string
  paymentMethod :: string
  metadata :: payment_metadata
  paidAt :: "date option"
  verified :: bool
  expiresAt :: date

text \<open>\<open>applicationSchema\<close>: the fields the payment code reads or writes, and the two the
  schema validates against each other when a document is saved; every other field of the
  schema lives in the record's extension. \<open>password\<close> is \<open>select: false\<close>: a stored
  document has it, a document loaded by a query has not (\<open>None\<close>). \<open>paymentStatus\<close> is
  written by \<open>findByIdAndUpdate\<close>, which runs no validators, so the schema's \<open>enum\<close>
  does not restrict what the payment code stores there.\<close>

record app =
  a_id :: object_id
  a_status :: string
  a_payment :: "object_id option"
  a_paymentStatus :: string
  a_password :: "string option"
  a_confirmPassword :: "string option"

text \<open>The user document: \<open>userSchema\<close> declares no path \<open>enrolledPrograms\<close>.\<close>

record usr =
  u_id :: object_id
  u_email :: string

text \<open>Every storage call that goes through is appended to \<open>writes\<close>, so that the
  number of transitions and cascades of a run can be counted.\<close>

datatype db_write =
    PaymentCreate object_id
  | PaymentSave object_id
  | PaymentDelete object_id
  | ApplicationSave object_id
  | ApplicationUpdate object_id
  | UserUpdate object_id

record 'z store =
  payments :: "payment list"
  applications :: "'z app_scheme list"
  users :: "usr list"
  next_id :: object_id
  writes :: "db_write list"

text \<open>Each \<open>await\<close> on the database may reject, for a reason the handler does not
  control (connection, validation, a duplicate key); \<open>faults\<close> says at which call sites
  of the request under way it does. What a request leaves in the store is stated below
  for the runs in which the storage calls on its path go through, and the calls are
  named there. The documents' \<open>createdAt\<close> and \<open>updatedAt\<close>, kept by the schemas'
  \<open>timestamps\<close> option, are not part of the model.\<close>

datatype site =
    Init_Application_findById
  | Init_Payment_findOne
  | Init_existingPayment_save
  | Init_User_findOne
  | Init_Payment_create
  | Init_application_save_link
  | Init_Payment_findByIdAndDelete
  | Init_application_save_unlink
  | Init_payment_save_reference
  | Verify_Payment_findOne
  | Verify_payment_save
  | Verify_Application_update_paid
  | Verify_User_update
  | Verify_Application_update_failed
  | Charge_Payment_findOne
  | Charge_payment_save
  | Charge_Application_update
  | Charge_User_update

type_synonym faults = "site \<Rightarrow> bool"

datatype exn = DbError site | ValidationError string | TypeError string | SyntaxError

type_synonym env = "string \<rightharpoonup> string"

text \<open>The Paystack client. \<open>Inl m\<close> is a thrown error with message \<open>m\<close>; a resolved
  call carries \<open>response.data\<close>, which may be absent.\<close>

record checkout =
  authorization_url :: string
  co_reference :: string
  access_code :: string

record init_request =
  ir_email :: string
  ir_amount :: int
  ir_metadata :: metadata_bag
  ir_callback_url :: string

record gateway =
  transaction_initialize :: "init_request \<Rightarrow> string + checkout option"
  transaction_verify :: "string \<Rightarrow> string + verification_data option"

text \<open>The body of \<open>POST /initialize\<close>.\<close>

record init_body =
  req_applicationId :: object_id
  req_program :: string
  req_track :: string
  req_amount :: int
  req_email :: string
  req_metadata :: metadata_bag

text \<open>The webhook's \<open>req.body\<close>: \<open>event\<close> and \<open>data\<close> are absent when the body
  does not carry them.\<close>

record webhook_payload =
  event :: "string option"
  hook_data :: "charge_data option"

text \<open>What the platform computes: \<open>crypto.createHmac('sha512', key).update(text).digest('hex')\<close>
  and \<open>JSON.stringify\<close>.\<close>

record platform =
  hmac_sha512_hex :: "string \<Rightarrow> string \<Rightarrow> string"
  JSON_stringify :: "webhook_payload \<Rightarrow> string"

text \<open>The value of \<open>this\<close> inside a controller method: the controller when the method
  is called on it, \<open>undefined\<close> when the method value is called on its own (a class
  body is strict code).\<close>

datatype receiver = Controller | Undefined

datatype 'p body =
    NoBody
  | PaymentBody 'p "string option"
  | CheckoutBody checkout
  | GatewayError string
  | Exception exn
  | ErrorText string

record 'p response =
  statusCode :: nat
  success :: bool
  message :: "string option"
  content :: "'p body"

section \<open>Database primitives\<close>

definition Payment_findOne :: "(payment \<Rightarrow> bool) \<Rightarrow> 'z store \<Rightarrow> payment option" where
  "Payment_findOne q s = find q (payments s)"

text \<open>A query does not load the application's \<open>password\<close>.\<close>

definition unselected :: "'z app_scheme \<Rightarrow> 'z app_scheme" where
  "unselected a = a\<lparr>a_password := None\<rparr>"

definition Application_findById :: "object_id \<Rightarrow> 'z store \<Rightarrow> 'z app_scheme option" where
  "Application_findById i s = map_option unselected (find (\<lambda>a. a_id a = i) (applications s))"

text \<open>\<open>.populate('user').populate('application')\<close>: a reference with no document
  behind it populates to \<open>null\<close>.\<close>

record 'z populated =
  doc :: payment
  user_doc :: "usr option"
  application_doc :: "'z app_scheme option"

definition populate :: "'z store \<Rightarrow> payment \<Rightarrow> 'z populated" where
  "populate s p =
     \<lparr>doc = p,
      user_doc = find (\<lambda>u. u_id u = user p) (users s),
      application_doc = Application_findById (application p) s\<rparr>"

text \<open>\<open>document.save()\<close> of a loaded payment writes the paths the handler has assigned
  on the document; across the controller these are \<open>reference\<close>, \<open>status\<close>, \<open>paidAt\<close>
  and \<open>verified\<close>. \<open>metadata\<close> is of type \<open>Object\<close> and the handlers change it in
  place (\<open>payment.metadata.paystackData = ...\<close>) without \<open>markModified\<close>: that change
  is on the document in memory only and is not written.\<close>

definition Payment_save :: "payment \<Rightarrow> 'z store \<Rightarrow> 'z store" where
  "Payment_save p s =
     s\<lparr>payments :=
         map (\<lambda>q. if pid q = pid p
                   then q\<lparr>reference := reference p, status := status p,
                          paidAt := paidAt p, verified := verified p\<rparr>
                   else q) (payments s),
       writes := writes s @ [PaymentSave (pid p)]\<rparr>"

definition Application_findByIdAndUpdate ::
  "object_id \<Rightarrow> ('z app_scheme \<Rightarrow> 'z app_scheme) \<Rightarrow> 'z store \<Rightarrow> 'z store" where
  "Application_findByIdAndUpdate i f s =
     s\<lparr>applications := map (\<lambda>a. if a_id a = i then f a else a) (applications s),
       writes := writes s @ [ApplicationUpdate i]\<rparr>"

text \<open>\<open>User.findByIdAndUpdate(id, {$addToSet: {enrolledPrograms: x}})\<close>: the schema is
  strict and declares no path \<open>enrolledPrograms\<close>, so the update's only entry is dropped
  when the update is cast and the user document is left as it is. The call is issued all
  the same; \<open>x\<close> is \<open>None\<close> for the \<open>undefined\<close> that \<open>payment.application?._id\<close>
  yields for a missing application.\<close>

definition User_findByIdAndUpdate :: "object_id \<Rightarrow> object_id option \<Rightarrow> 'z store \<Rightarrow> 'z store" where
  "User_findByIdAndUpdate i x s = s\<lparr>writes := writes s @ [UserUpdate i]\<rparr>"

text \<open>\<open>new Date(x)\<close>: \<open>new Date(null)\<close> is the epoch.\<close>

definition new_Date :: "date option \<Rightarrow> date" where
  "new_Date x = (case x of None \<Rightarrow> 0 | Some t \<Rightarrow> t)"

section \<open>PaymentService\<close>

text \<open>\<open>verifyPayment(reference)\<close>: the client's error is caught and returned as
  \<open>{success: false, error: error.message || 'Payment verification failed'}\<close>.\<close>

definition or_default :: "string \<Rightarrow> string \<Rightarrow> string" where
  "or_default m d = (if m = [] then d else m)"

definition service_verifyPayment ::
  "gateway \<Rightarrow> string \<Rightarrow> string + verification_data option" where
  "service_verifyPayment gw ref =
     (case transaction_verify gw ref of
        Inr data \<Rightarrow> Inr data
      | Inl m \<Rightarrow> Inl (or_default m ''Payment verification failed''))"

section \<open>PaymentController.verifyPayment\<close>

definition reply :: "nat \<Rightarrow> bool \<Rightarrow> string \<Rightarrow> 'p body \<Rightarrow> 'p response" where
  "reply c ok m b = \<lparr>statusCode = c, success = ok, message = Some m, content = b\<rparr>"

definition frontend :: "env \<Rightarrow> string" where
  "frontend e = (case e ''FRONTEND_URL'' of None \<Rightarrow> ''undefined'' | Some u \<Rightarrow> u)"

text \<open>The body of the \<open>try\<close> block: \<open>Inl\<close> is a thrown exception, together with
  the store as the writes before the throw left it. The block is written in two parts,
  split where the handler has awaited \<open>Payment.findOne\<close>: \<open>verify_lookup\<close> is lines
  153 to 175, \<open>verify_loaded\<close> lines 177 to 236, run on the document that was read.\<close>

datatype ('a, 'b) stage = Answered 'a | Loaded 'b

definition verify_lookup ::
  "faults \<Rightarrow> string option \<Rightarrow> 'z store \<Rightarrow>
   (exn + 'z populated response, string \<times> 'z populated) stage" where
  "verify_lookup flt query s =
    (case query of
       None \<Rightarrow> Answered (Inr (reply 400 False ''Payment reference is required'' NoBody))
     | Some ref \<Rightarrow>
       if ref = [] then Answered (Inr (reply 400 False ''Payment reference is required'' NoBody))
       else if flt Verify_Payment_findOne then Answered (Inl (DbError Verify_Payment_findOne))
       else
        (case Payment_findOne (\<lambda>p. reference p = ref) s of
           None \<Rightarrow> Answered (Inr (reply 404 False ''Payment not found'' NoBody))
         | Some found \<Rightarrow> Loaded (ref, populate s found)))"

definition verify_loaded ::
  "gateway \<Rightarrow> faults \<Rightarrow> env \<Rightarrow> string \<Rightarrow> 'z populated \<Rightarrow> 'z store \<Rightarrow>
   (exn + 'z populated response) \<times> 'z store" where
  "verify_loaded gw flt e ref payment s =
    (if verified (doc payment)
     then (Inr (reply 200 True ''Payment already verified'' (PaymentBody payment None)), s)
     else
      (case service_verifyPayment gw ref of
         Inl err \<Rightarrow> (Inr (reply 400 False ''Payment verification failed'' (GatewayError err)), s)
       | Inr None \<Rightarrow> (Inl (TypeError ''verificationData.status''), s)
       | Inr (Some verificationData) \<Rightarrow>
          let d = (doc payment)
                \<lparr>status := (if gw_status verificationData = ''success''
                             then ''success'' else ''failed''),
                 paidAt := Some (new_Date (paid_at verificationData)),
                 verified := True,
                 metadata := (metadata (doc payment))
                               \<lparr>paystackData := Some verificationData\<rparr>\<rparr>;
              payment = payment\<lparr>doc := d\<rparr>
          in
          if flt Verify_payment_save then (Inl (DbError Verify_payment_save), s)
          else
           let s1 = Payment_save d s in
           if status d = ''success'' then
            (case application_doc payment of
               None \<Rightarrow> (Inl (TypeError ''payment.application._id''), s1)
             | Some a \<Rightarrow>
                if flt Verify_Application_update_paid
                then (Inl (DbError Verify_Application_update_paid), s1)
                else
                 let s2 = Application_findByIdAndUpdate (a_id a)
                            (\<lambda>x. x\<lparr>a_status := ''enrolled'', a_paymentStatus := ''paid''\<rparr>) s1
                 in
                 (case user_doc payment of
                    None \<Rightarrow> (Inl (TypeError ''payment.user._id''), s2)
                  | Some u \<Rightarrow>
                     if flt Verify_User_update then (Inl (DbError Verify_User_update), s2)
                     else
                      let s3 = User_findByIdAndUpdate (u_id u) (Some (a_id a)) s2
                      in (Inr (reply 200 True ''Payment verified successfully''
                                 (PaymentBody payment (Some (frontend e @ ''/dashboard'')))),
                          s3)))
           else
            (case application_doc payment of
               None \<Rightarrow> (Inl (TypeError ''payment.application._id''), s1)
             | Some a \<Rightarrow>
                if flt Verify_Application_update_failed
                then (Inl (DbError Verify_Application_update_failed), s1)
                else
                 let s2 = Application_findByIdAndUpdate (a_id a)
                            (\<lambda>x. x\<lparr>a_paymentStatus := ''failed''\<rparr>) s1
                 in (Inr (reply 400 False ''Payment was not successful''
                            (PaymentBody payment None)), s2))))"

definition verifyPayment_try ::
  "gateway \<Rightarrow> faults \<Rightarrow> env \<Rightarrow> string option \<Rightarrow> 'z store \<Rightarrow>
   (exn + 'z populated response) \<times> 'z store" where
  "verifyPayment_try gw flt e query s =
    (case verify_lookup flt query s of
       Answered r \<Rightarrow> (r, s)
     | Loaded (ref, payment) \<Rightarrow> verify_loaded gw flt e ref payment s)"

text \<open>The \<open>catch\<close> block answers every exception with 500 \<open>Server error\<close>.\<close>

definition server_error :: "exn \<Rightarrow> 'p response" where
  "server_error x = reply 500 False ''Server error'' (Exception x)"

definition or_server_error :: "exn + 'p response \<Rightarrow> 'p response" where
  "or_server_error r = (case r of Inl x \<Rightarrow> server_error x | Inr res \<Rightarrow> res)"

definition verifyPayment ::
  "gateway \<Rightarrow> faults \<Rightarrow> env \<Rightarrow> string option \<Rightarrow> 'z store \<Rightarrow>
   'z populated response \<times> 'z store" where
  "verifyPayment gw flt e query s =
     (case verifyPayment_try gw flt e query s of (r, s') \<Rightarrow> (or_server_error r, s'))"

section \<open>PaymentService: initializePayment and verifyWebhookSignature\<close>

text \<open>\<open>initializePayment(paymentData)\<close>: the \<open>try\<close> block reads three fields of
  \<open>response.data\<close>, so an absent \<open>data\<close> is a \<open>TypeError\<close> that the \<open>catch\<close>
  turns into \<open>{success: false, error}\<close> like any error of the client.\<close>

definition service_initializePayment ::
  "gateway \<Rightarrow> env \<Rightarrow> string \<Rightarrow> int \<Rightarrow> metadata_bag \<Rightarrow> string + checkout" where
  "service_initializePayment gw e email amt md =
     (case transaction_initialize gw
             \<lparr>ir_email = email, ir_amount = amt, ir_metadata = md,
              ir_callback_url = frontend e\<rparr> of
        Inr (Some data) \<Rightarrow> Inr data
      | Inr None \<Rightarrow> Inl ''Cannot read properties of undefined''
      | Inl m \<Rightarrow> Inl (or_default m ''Payment initialization failed''))"

definition verifyWebhookSignature ::
  "platform \<Rightarrow> env \<Rightarrow> webhook_payload \<Rightarrow> string option \<Rightarrow> bool" where
  "verifyWebhookSignature pf e payload signature =
     (case e ''PAYSTACK_WEBHOOK_SECRET'' of
        None \<Rightarrow> True
      | Some secret \<Rightarrow>
         if secret = [] then True
         else Some (hmac_sha512_hex pf secret (JSON_stringify pf payload)) = signature)"

section \<open>PaymentController.initializePayment\<close>

text \<open>\<open>confirmPassword\<close> of \<open>applicationSchema\<close>: \<open>required\<close>, and validated by
  \<open>function(el) { return el === this.password; }\<close>.\<close>

definition confirmPassword_validator :: "'z app_scheme \<Rightarrow> bool" where
  "confirmPassword_validator a =
     (case a_confirmPassword a of
        None \<Rightarrow> False
      | Some el \<Rightarrow> el \<noteq> [] \<and> a_password a = Some el)"

text \<open>\<open>application.save()\<close>: the document is validated first and the save rejects with
  a \<open>ValidationError\<close> when the validator fails; otherwise the path the handler has
  assigned, \<open>payment\<close>, is written.\<close>

definition Application_save :: "'z app_scheme \<Rightarrow> 'z store \<Rightarrow> exn + 'z store" where
  "Application_save a s =
     (if \<not> confirmPassword_validator a then Inl (ValidationError ''confirmPassword'')
      else Inr (s\<lparr>applications :=
                    map (\<lambda>x. if a_id x = a_id a then x\<lparr>a_payment := a_payment a\<rparr> else x)
                      (applications s),
                  writes := writes s @ [ApplicationSave (a_id a)]\<rparr>))"

text \<open>\<open>Payment.create\<close>: the new document takes the next \<open>_id\<close> and the schema's
  defaults (\<open>paymentMethod\<close>, \<open>verified\<close>, \<open>expiresAt\<close> 24 hours from now).\<close>

definition Payment_create :: "payment \<Rightarrow> 'z store \<Rightarrow> 'z store" where
  "Payment_create p s =
     s\<lparr>payments := payments s @ [p],
       next_id := Suc (next_id s),
       writes := writes s @ [PaymentCreate (pid p)]\<rparr>"

definition Payment_findByIdAndDelete :: "object_id \<Rightarrow> 'z store \<Rightarrow> 'z store" where
  "Payment_findByIdAndDelete i s =
     s\<lparr>payments := filter (\<lambda>p. pid p \<noteq> i) (payments s),
       writes := writes s @ [PaymentDelete i]\<rparr>"

definition new_payment :: "date \<Rightarrow> string \<Rightarrow> init_body \<Rightarrow> object_id \<Rightarrow> object_id \<Rightarrow> payment" where
  "new_payment now fresh_reference b uid i =
     \<lparr>pid = i, user = uid, application = req_applicationId b,
      track = req_track b, program = req_program b,
      amount = req_amount b * 100, currency = ''NGN'',
      reference = fresh_reference, status = ''pending'', paymentMethod = ''paystack'',
      metadata = \<lparr>entries = AList.update ''applicationId'' (IdText (req_applicationId b))
                                 (req_metadata b),
                  paystackData = None, paystackWebhookData = None\<rparr>,
      paidAt = None, verified = False, expiresAt = now + 24 * 60 * 60 * 1000\<rparr>"

text \<open>Lines 66 to 136: the user lookup, the new row, the link, the checkout session and
  the rollback when the session fails. \<open>fresh_reference\<close> is the placeholder
  \<open>PAY-<Date.now()>-<random>\<close>; \<open>application'\<close> is the document that
  \<open>Application.findById\<close> has loaded at line 18.\<close>

definition create_and_checkout ::
  "gateway \<Rightarrow> faults \<Rightarrow> env \<Rightarrow> date \<Rightarrow> string \<Rightarrow> init_body \<Rightarrow> 'z app_scheme \<Rightarrow> 'z store \<Rightarrow>
   (exn + 'z populated response) \<times> 'z store" where
  "create_and_checkout gw flt e now fresh_reference b application' s =
    (if flt Init_User_findOne then (Inl (DbError Init_User_findOne), s)
     else
      (case find (\<lambda>u. u_email u = req_email b) (users s) of
         None \<Rightarrow> (Inr (reply 404 False ''User not found'' NoBody), s)
       | Some findUser \<Rightarrow>
          if flt Init_Payment_create then (Inl (DbError Init_Payment_create), s)
          else
           let payment = new_payment now fresh_reference b (u_id findUser) (next_id s);
               s1 = Payment_create payment s;
               application' = application'\<lparr>a_payment := Some (pid payment)\<rparr>
           in
           (case Application_save application' s1 of
              Inl x \<Rightarrow> (Inl x, s1)
            | Inr s2 \<Rightarrow>
               if flt Init_application_save_link
               then (Inl (DbError Init_application_save_link), s1)
               else
                (case service_initializePayment gw e (req_email b) (req_amount b * 100)
                        [(''paymentId'', IdText (pid payment)),
                         (''applicationId'', IdText (req_applicationId b)),
                         (''track'', Text (req_track b)),
                         (''program'', Text (req_program b))] of
                   Inl err \<Rightarrow>
                    if flt Init_Payment_findByIdAndDelete
                    then (Inl (DbError Init_Payment_findByIdAndDelete), s2)
                    else
                     let s3 = Payment_findByIdAndDelete (pid payment) s2;
                         application' = application'\<lparr>a_payment := None\<rparr>
                     in
                     (case Application_save application' s3 of
                        Inl x \<Rightarrow> (Inl x, s3)
                      | Inr s4 \<Rightarrow>
                         if flt Init_application_save_unlink
                         then (Inl (DbError Init_application_save_unlink), s3)
                         else
                          (Inr (reply 500 False ''Payment initialization failed''
                                  (GatewayError err)), s4))
                 | Inr data \<Rightarrow>
                    let payment = payment\<lparr>reference := co_reference data\<rparr> in
                    if flt Init_payment_save_reference
                    then (Inl (DbError Init_payment_save_reference), s2)
                    else
                     (Inr (reply 200 True ''Payment initialized successfully''
                             (CheckoutBody data)),
                      Payment_save payment s2)))))"

definition initializePayment_try ::
  "gateway \<Rightarrow> faults \<Rightarrow> env \<Rightarrow> date \<Rightarrow> string \<Rightarrow> init_body \<Rightarrow> 'z store \<Rightarrow>
   (exn + 'z populated response) \<times> 'z store" where
  "initializePayment_try gw flt e now fresh_reference b s =
    (if flt Init_Application_findById then (Inl (DbError Init_Application_findById), s)
     else
      (case Application_findById (req_applicationId b) s of
         None \<Rightarrow> (Inr (reply 404 False ''Application not found'' NoBody), s)
       | Some application' \<Rightarrow>
          if flt Init_Payment_findOne then (Inl (DbError Init_Payment_findOne), s)
          else
           (case Payment_findOne
                   (\<lambda>p. payment.application p = req_applicationId b \<and> status p = ''pending'') s of
              None \<Rightarrow> create_and_checkout gw flt e now fresh_reference b application' s
            | Some existingPayment \<Rightarrow>
               if expiresAt existingPayment < now then
                 if flt Init_existingPayment_save
                 then (Inl (DbError Init_existingPayment_save), s)
                 else create_and_checkout gw flt e now fresh_reference b application'
                        (Payment_save (existingPayment\<lparr>status := ''expired''\<rparr>) s)
               else
                (case service_initializePayment gw e (req_email b) (req_amount b * 100)
                        (AList.update ''applicationId'' (IdText (req_applicationId b))
                          (AList.update ''paymentId'' (IdText (pid existingPayment))
                            (req_metadata b))) of
                   Inl err \<Rightarrow>
                    (Inr (reply 500 False ''Payment initialization failed'' (GatewayError err)), s)
                 | Inr data \<Rightarrow>
                    (Inr (reply 200 True ''Payment initialized successfully'' (CheckoutBody data)),
                     s)))))"

definition initializePayment ::
  "gateway \<Rightarrow> faults \<Rightarrow> env \<Rightarrow> date \<Rightarrow> string \<Rightarrow> init_body \<Rightarrow> 'z store \<Rightarrow>
   'z populated response \<times> 'z store" where
  "initializePayment gw flt e now fresh_reference b s =
     (case initializePayment_try gw flt e now fresh_reference b s of
        (r, s') \<Rightarrow> (or_server_error r, s'))"

section \<open>PaymentController.handleWebhook and processSuccessfulCharge\<close>

text \<open>\<open>processSuccessfulCharge(data)\<close>: its \<open>catch\<close> logs and rethrows, so the
  result is the exception or a plain return. It is split like \<open>verifyPayment\<close>:
  \<open>charge_lookup\<close> is lines 384 to 402, \<open>charge_loaded\<close> lines 404 to 424.\<close>

definition charge_lookup ::
  "faults \<Rightarrow> charge_data option \<Rightarrow> 'z store \<Rightarrow> (exn + unit, charge_data \<times> 'z populated) stage" where
  "charge_lookup flt data_opt s =
    (case data_opt of
       None \<Rightarrow> Answered (Inl (TypeError ''Cannot destructure data''))
     | Some data \<Rightarrow>
       if c_metadata data = MetaBadText then Answered (Inl SyntaxError)
       else if flt Charge_Payment_findOne then Answered (Inl (DbError Charge_Payment_findOne))
       else
        (case Payment_findOne (\<lambda>p. reference p = c_reference data) s of
           None \<Rightarrow> Answered (Inr ())
         | Some found \<Rightarrow> Loaded (data, populate s found)))"

definition charge_loaded ::
  "faults \<Rightarrow> charge_data \<Rightarrow> 'z populated \<Rightarrow> 'z store \<Rightarrow> (exn + unit) \<times> 'z store" where
  "charge_loaded flt data payment s =
    (let d = (doc payment)
               \<lparr>status := ''success'',
                paidAt := Some (new_Date (c_paid_at data)),
                verified := True,
                metadata := (metadata (doc payment))\<lparr>paystackWebhookData := Some data\<rparr>\<rparr>
     in
     if flt Charge_payment_save then (Inl (DbError Charge_payment_save), s)
     else
      let s1 = Payment_save d s in
      if application_doc payment \<noteq> None \<and> flt Charge_Application_update
      then (Inl (DbError Charge_Application_update), s1)
      else
       let s2 = (case application_doc payment of
                   None \<Rightarrow> s1
                 | Some a \<Rightarrow>
                    Application_findByIdAndUpdate (a_id a)
                      (\<lambda>x. x\<lparr>a_status := ''enrolled'', a_paymentStatus := ''paid''\<rparr>) s1)
       in
       (case user_doc payment of
          None \<Rightarrow> (Inl (TypeError ''payment.user._id''), s2)
        | Some u \<Rightarrow>
           if flt Charge_User_update then (Inl (DbError Charge_User_update), s2)
           else
            (Inr (),
             User_findByIdAndUpdate (u_id u) (map_option a_id (application_doc payment)) s2)))"

definition processSuccessfulCharge ::
  "faults \<Rightarrow> charge_data option \<Rightarrow> 'z store \<Rightarrow> (exn + unit) \<times> 'z store" where
  "processSuccessfulCharge flt data_opt s =
    (case charge_lookup flt data_opt s of
       Answered r \<Rightarrow> (r, s)
     | Loaded (data, payment) \<Rightarrow> charge_loaded flt data payment s)"

text \<open>\<open>handleWebhook(req, res)\<close>. The class defines \<open>processSuccessfulCharge\<close> only:
  \<open>this.processSuccessfulTransfer\<close> and \<open>this.processFailedPayment\<close> are not functions,
  and with \<open>this\<close> undefined every \<open>this.\<close> access throws.\<close>

definition handleWebhook_try ::
  "receiver \<Rightarrow> platform \<Rightarrow> faults \<Rightarrow> env \<Rightarrow> string option \<Rightarrow> webhook_payload \<Rightarrow> 'z store \<Rightarrow>
   (exn + 'z populated response) \<times> 'z store" where
  "handleWebhook_try this pf flt e signature payload s =
    (if \<not> verifyWebhookSignature pf e payload signature
     then (Inr \<lparr>statusCode = 401, success = False, message = None,
                content = ErrorText ''Invalid signature''\<rparr>, s)
     else if event payload = Some ''charge.success'' then
       (case this of
          Undefined \<Rightarrow> (Inl (TypeError ''this.processSuccessfulCharge''), s)
        | Controller \<Rightarrow>
           (case processSuccessfulCharge flt (hook_data payload) s of
              (Inl x, s') \<Rightarrow> (Inl x, s')
            | (Inr _, s') \<Rightarrow>
               (Inr \<lparr>statusCode = 200, success = True, message = None, content = NoBody\<rparr>, s')))
     else if event payload = Some ''transfer.success''
       then (Inl (TypeError ''this.processSuccessfulTransfer''), s)
     else if event payload = Some ''invoice.payment_failed''
       then (Inl (TypeError ''this.processFailedPayment''), s)
     else (Inr \<lparr>statusCode = 200, success = True, message = None, content = NoBody\<rparr>, s))"

text \<open>The \<open>catch\<close> block: 500 with \<open>{success: false, error: error.message}\<close>.\<close>

definition handleWebhook ::
  "receiver \<Rightarrow> platform \<Rightarrow> faults \<Rightarrow> env \<Rightarrow> string option \<Rightarrow> webhook_payload \<Rightarrow> 'z store \<Rightarrow>
   'z populated response \<times> 'z store" where
  "handleWebhook this pf flt e signature payload s =
     (case handleWebhook_try this pf flt e signature payload s of
        (Inl x, s') \<Rightarrow>
          (\<lparr>statusCode = 500, success = False, message = None, content = Exception x\<rparr>, s')
      | (Inr r, s') \<Rightarrow> (r, s'))"

text \<open>The router: \<open>router.post('/webhook', paymentController.handleWebhook)\<close> hands
  Express the method value, so Express calls it with \<open>this\<close> undefined. (The application
  mounts \<open>express.raw\<close> on this path ahead of \<open>express.json\<close>; the body that reaches the
  handler is then a \<open>Buffer\<close>, a payload with neither \<open>event\<close> nor \<open>data\<close>.)\<close>

definition post_webhook ::
  "platform \<Rightarrow> faults \<Rightarrow> env \<Rightarrow> string option \<Rightarrow> webhook_payload \<Rightarrow> 'z store \<Rightarrow>
   'z populated response \<times> 'z store" where
  "post_webhook = handleWebhook Undefined"

section \<open>Requests in flight together\<close>

text \<open>
  Node runs a handler without interruption up to its next \<open>await\<close>; there another
  request's handler may run. A verify request and a \<open>processSuccessfulCharge\<close> call in
  flight together are therefore two tasks over one store, each advancing one part at a
  time: the part up to the awaited \<open>Payment.findOne\<close>, then the rest, which works on the
  document that was read. (The rest awaits again at each write; splitting it further only
  adds schedules.) A schedule says whose turn it is.
\<close>

datatype 'z verify_task =
    Verify_request "string option"
  | Verify_read string "'z populated"
  | Verify_responded "'z populated response"

datatype 'z charge_task =
    Charge_request "charge_data option"
  | Charge_read charge_data "'z populated"
  | Charge_returned "exn + unit"

record 'z in_flight =
  verify_task :: "'z verify_task"
  charge_task :: "'z charge_task"
  db :: "'z store"

datatype turn = VerifyTurn | ChargeTurn

definition verify_turn :: "gateway \<Rightarrow> faults \<Rightarrow> env \<Rightarrow> 'z in_flight \<Rightarrow> 'z in_flight" where
  "verify_turn gw flt e c =
    (case verify_task c of
       Verify_request query \<Rightarrow>
        (case verify_lookup flt query (db c) of
           Answered r \<Rightarrow> c\<lparr>verify_task := Verify_responded (or_server_error r)\<rparr>
         | Loaded (ref, payment) \<Rightarrow> c\<lparr>verify_task := Verify_read ref payment\<rparr>)
     | Verify_read ref payment \<Rightarrow>
        (case verify_loaded gw flt e ref payment (db c) of
           (r, s') \<Rightarrow> c\<lparr>verify_task := Verify_responded (or_server_error r), db := s'\<rparr>)
     | Verify_responded r \<Rightarrow> c)"

definition charge_turn :: "faults \<Rightarrow> 'z in_flight \<Rightarrow> 'z in_flight" where
  "charge_turn flt c =
    (case charge_task c of
       Charge_request data_opt \<Rightarrow>
        (case charge_lookup flt data_opt (db c) of
           Answered r \<Rightarrow> c\<lparr>charge_task := Charge_returned r\<rparr>
         | Loaded (data, payment) \<Rightarrow> c\<lparr>charge_task := Charge_read data payment\<rparr>)
     | Charge_read data payment \<Rightarrow>
        (case charge_loaded flt data payment (db c) of
           (r, s') \<Rightarrow> c\<lparr>charge_task := Charge_returned r, db := s'\<rparr>)
     | Charge_returned r \<Rightarrow> c)"

fun run :: "gateway \<Rightarrow> faults \<Rightarrow> env \<Rightarrow> turn list \<Rightarrow> 'z in_flight \<Rightarrow> 'z in_flight" where
  "run gw flt e [] c = c"
| "run gw flt e (VerifyTurn # sch) c = run gw flt e sch (verify_turn gw flt e c)"
| "run gw flt e (ChargeTurn # sch) c = run gw flt e sch (charge_turn flt c)"

definition in_flight_together :: "string \<Rightarrow> charge_data \<Rightarrow> 'z store \<Rightarrow> 'z in_flight" where
  "in_flight_together ref data s =
     \<lparr>verify_task = Verify_request (Some ref), charge_task = Charge_request (Some data), db = s\<rparr>"

section \<open>Predicates on stores and tasks\<close>



text \<open>A verify task that will write nothing any more: it has responded, or the document
  it read is already verified, so that its guard at line 178 answers at once.\<close>

definition past_guard :: "'z verify_task \<Rightarrow> bool" where
  "past_guard v =
     (case v of
        Verify_request query \<Rightarrow> False
      | Verify_read ref payment \<Rightarrow> verified (doc payment)
      | Verify_responded r \<Rightarrow> True)"

section \<open>Example data\<close>

text \<open>Payment \<open>PAY-1\<close> of 500000 kobo, pending, for application 3 of user 7; a gateway
  that is down, and one that reports a given status and \<open>paid_at\<close> and opens checkout
  session \<open>T2\<close>.\<close>

definition no_faults :: faults where
  "no_faults = (\<lambda>_. False)"

definition payment1 :: payment where
  "payment1 =
     \<lparr>pid = 1, user = 7, application = 3, track = ''backend-development'',
      program = ''launchpad'', amount = 500000, currency = ''NGN'', reference = ''PAY-1'',
      status = ''pending'', paymentMethod = ''paystack'',
      metadata = \<lparr>entries = [(''applicationId'', IdText 3)], paystackData = None,
                  paystackWebhookData = None\<rparr>,
      paidAt = None, verified = False, expiresAt = 86400000\<rparr>"

definition application3 :: app where
  "application3 =
     \<lparr>a_id = 3, a_status = ''pending'', a_payment = Some 1, a_paymentStatus = ''pending'',
      a_password = Some ''correct horse'', a_confirmPassword = Some ''correct horse''\<rparr>"

definition user7 :: usr where
  "user7 = \<lparr>u_id = 7, u_email = ''ada@example.org''\<rparr>"

definition store1 :: "unit store" where
  "store1 = \<lparr>payments = [payment1], applications = [application3], users = [user7],
             next_id = 8, writes = []\<rparr>"

definition store0 :: "unit store" where
  "store0 = \<lparr>payments = [], applications = [application3\<lparr>a_payment := None\<rparr>],
             users = [user7], next_id = 8, writes = []\<rparr>"

definition gateway_down :: gateway where
  "gateway_down =
     \<lparr>transaction_initialize = (\<lambda>_. Inl ''timeout''),
      transaction_verify = (\<lambda>_. Inl ''timeout'')\<rparr>"

definition gateway_reports :: "string \<Rightarrow> date option \<Rightarrow> gateway" where
  "gateway_reports st t =
     \<lparr>transaction_initialize =
        (\<lambda>_. Inr (Some \<lparr>authorization_url = ''https://checkout.example/T2'',
                         co_reference = ''T2'', access_code = ''ac2''\<rparr>)),
      transaction_verify = (\<lambda>_. Inr (Some \<lparr>gw_status = st, paid_at = t\<rparr>))\<rparr>"

definition body1 :: init_body where
  "body1 =
     \<lparr>req_applicationId = 3, req_program = ''launchpad'', req_track = ''backend-development'',
      req_amount = 5000, req_email = ''ada@example.org'', req_metadata = []\<rparr>"

definition charge1 :: charge_data where
  "charge1 = \<lparr>c_reference = ''PAY-1'', c_metadata = MetaObject, c_paid_at = Some 1000\<rparr>"

definition hook :: "string \<Rightarrow> webhook_payload" where
  "hook ev = \<lparr>event = Some ev, hook_data = Some charge1\<rparr>"

text \<open>A platform for the examples: any two functions will do where no secret is
  configured, since the digest is then never computed.\<close>

definition platform1 :: platform where
  "platform1 =
     \<lparr>hmac_sha512_hex = (\<lambda>key text. key @ text),
      JSON_stringify = (\<lambda>p. case event p of None \<Rightarrow> [] | Some ev \<Rightarrow> ev)\<rparr>"

definition production :: env where
  "production = [''NODE_ENV'' \<mapsto> ''production'']"

section \<open>Facts shared by the proofs\<close>

lemmas fixture_defs = store1_def store0_def payment1_def application3_def user7_def no_faults_def
  gateway_down_def gateway_reports_def body1_def charge1_def hook_def platform1_def production_def

lemmas db_defs = Payment_findOne_def Payment_save_def Application_findByIdAndUpdate_def
  User_findByIdAndUpdate_def Application_save_def Payment_create_def Payment_findByIdAndDelete_def
  Application_findById_def unselected_def confirmPassword_validator_def new_Date_def populate_def

lemmas verify_defs = verifyPayment_def verifyPayment_try_def verify_lookup_def verify_loaded_def
  service_verifyPayment_def or_default_def reply_def server_error_def or_server_error_def
  frontend_def Let_def

lemmas init_defs = initializePayment_def initializePayment_try_def create_and_checkout_def
  service_initializePayment_def new_payment_def frontend_def or_default_def reply_def
  server_error_def or_server_error_def Let_def

lemmas hook_defs = handleWebhook_def handleWebhook_try_def processSuccessfulCharge_def
  charge_lookup_def charge_loaded_def verifyWebhookSignature_def post_webhook_def Let_def

lemmas race_defs = verify_turn_def charge_turn_def in_flight_together_def

lemma find_Some_holds: "find P xs = Some x \<Longrightarrow> P x"
  by (induction xs) (auto split: if_splits)

lemma find_None_map: "find P xs = None \<Longrightarrow> map (\<lambda>x. if P x then f x else x) xs = xs"
  by (induction xs) (auto split: if_splits)


lemma snd_answer: "snd (case x of (r, s') \<Rightarrow> (f r, s')) = snd x"
  by (cases x) simp

lemma verify_loaded_settled:
  "verified (doc payment) \<Longrightarrow>
   verify_loaded gw flt e ref payment s =
     (Inr (reply 200 True ''Payment already verified'' (PaymentBody payment None)), s)"
  by (simp add: verify_loaded_def)

section \<open>Verification on a gateway error\<close>

text \<open>
  C10. For a stored Payment with \<open>verified = false\<close>, when the gateway's verification call
  fails (the client throws, or resolves without \<open>data\<close>), the verify endpoint answers with
  an error, 400 or 500 with \<open>success = false\<close>, and the store is left exactly as it was:
  status, \<open>verified\<close> and \<open>paidAt\<close> of the Payment keep their values and no write, hence no
  Application or User cascade, is issued. When the client throws and the lookup went
  through, the answer is 400 \<open>Payment verification failed\<close> with the client's message.
\<close>

theorem verify_gateway_error_atomic:
  assumes "Payment_findOne (\<lambda>p. reference p = ref) s = Some p"
      and "\<not> verified p"
      and "transaction_verify gw ref = Inl m \<or> transaction_verify gw ref = Inr None"
  shows "snd (verifyPayment gw flt e (Some ref) s) = s
       \<and> \<not> success (fst (verifyPayment gw flt e (Some ref) s))
       \<and> statusCode (fst (verifyPayment gw flt e (Some ref) s)) \<in> {400, 500}
       \<and> (transaction_verify gw ref = Inl m \<and> ref \<noteq> [] \<and> \<not> flt Verify_Payment_findOne \<longrightarrow>
            fst (verifyPayment gw flt e (Some ref) s) =
              reply 400 False ''Payment verification failed''
                (GatewayError (or_default m ''Payment verification failed'')))"
  using assms by (auto simp add: verify_defs populate_def)

theorem verify_gateway_error_atomic_witness:
  "Payment_findOne (\<lambda>p. reference p = ''PAY-1'') store1 = Some payment1
 \<and> \<not> verified payment1
 \<and> transaction_verify gateway_down ''PAY-1'' = Inl ''timeout''
 \<and> verifyPayment gateway_down no_faults Map.empty (Some ''PAY-1'') store1 =
     (reply 400 False ''Payment verification failed'' (GatewayError ''timeout''), store1)"
proof -
  have found: "Payment_findOne (\<lambda>p. reference p = ''PAY-1'') store1 = Some payment1"
    by (simp add: Payment_findOne_def store1_def payment1_def)
  have pending: "\<not> verified payment1"
    by (simp add: payment1_def)
  have down: "transaction_verify gateway_down ''PAY-1'' = Inl ''timeout''"
    by (simp add: gateway_down_def)
  from verify_gateway_error_atomic [OF found pending disjI1 [OF down], of no_faults Map.empty]
  show ?thesis
    using found pending down by (simp add: no_faults_def or_default_def prod_eq_iff)
qed

section \<open>The failure cascade\<close>

text \<open>
  C9. When verify reconciles an outcome other than \<open>success\<close>, the Application linked to
  the Payment gets \<open>paymentStatus = failed\<close> and nothing else: each application document
  is the one from before, with only that field replaced when its \<open>_id\<close> is the
  Payment's \<open>application\<close>. Its \<open>status\<close>, its payment link and every field of the
  record's extension keep their values, so \<open>status\<close> does not become \<open>enrolled\<close>; the
  users are untouched.
\<close>

theorem verify_failed_cascade_frame:
  assumes "Payment_findOne (\<lambda>p. reference p = ref) s = Some p"
      and "\<not> verified p"
      and "ref \<noteq> []"
      and "transaction_verify gw ref = Inr (Some vd)"
      and "gw_status vd \<noteq> ''success''"
      and "\<not> flt Verify_Payment_findOne"
      and "\<not> flt Verify_payment_save"
      and "\<not> flt Verify_Application_update_failed"
  shows "applications (snd (verifyPayment gw flt e (Some ref) s)) =
           map (\<lambda>x. if a_id x = application p then x\<lparr>a_paymentStatus := ''failed''\<rparr> else x)
               (applications s)
       \<and> users (snd (verifyPayment gw flt e (Some ref) s)) = users s"
  using assms
  by (auto simp add: verify_defs db_defs find_None_map split: option.splits dest: find_Some_holds)

theorem verify_failed_cascade_frame_witness:
  "Payment_findOne (\<lambda>p. reference p = ''PAY-1'') store1 = Some payment1
 \<and> \<not> verified payment1
 \<and> transaction_verify (gateway_reports ''failed'' None) ''PAY-1''
      = Inr (Some \<lparr>gw_status = ''failed'', paid_at = None\<rparr>)
 \<and> applications (snd (verifyPayment (gateway_reports ''failed'' None) no_faults Map.empty
                          (Some ''PAY-1'') store1))
      = [application3\<lparr>a_paymentStatus := ''failed''\<rparr>]
 \<and> a_status (application3\<lparr>a_paymentStatus := ''failed''\<rparr>) = ''pending''
 \<and> users (snd (verifyPayment (gateway_reports ''failed'' None) no_faults Map.empty
                          (Some ''PAY-1'') store1)) = [user7]"
proof -
  have found: "Payment_findOne (\<lambda>p. reference p = ''PAY-1'') store1 = Some payment1"
    by (simp add: Payment_findOne_def store1_def payment1_def)
  have pending: "\<not> verified payment1"
    by (simp add: payment1_def)
  have answer: "transaction_verify (gateway_reports ''failed'' None) ''PAY-1''
      = Inr (Some \<lparr>gw_status = ''failed'', paid_at = None\<rparr>)"
    by (simp add: gateway_reports_def)
  have "gw_status \<lparr>gw_status = ''failed'', paid_at = None\<rparr> \<noteq> ''success''"
    by simp
  from verify_failed_cascade_frame [OF found pending _ answer this, of no_faults Map.empty]
  show ?thesis
    using found pending answer
    by (simp add: no_faults_def store1_def payment1_def application3_def)
qed

section \<open>When paidAt is set\<close>




















section \<open>Settled payments and later deliveries\<close>

text \<open>
  C2, as the code has it. The guard of verify is the \<open>verified\<close> flag: for a Payment
  stored with \<open>verified = true\<close>, a verify call changes nothing in the store, whatever the
  gateway would answer and whatever fails, so the status of a Payment settled by a
  reconciliation is kept by every later verify call.
\<close>

theorem verify_leaves_settled_payment:
  assumes "Payment_findOne (\<lambda>p. reference p = ref) s = Some p"
      and "verified p"
  shows "snd (verifyPayment gw flt e (Some ref) s) = s"
  using assms by (simp add: verify_defs populate_def)

theorem verify_leaves_settled_payment_witness:
  "Payment_findOne (\<lambda>p. reference p = ''PAY-1'')
     \<lparr>payments = [payment1\<lparr>status := ''failed'', verified := True\<rparr>],
      applications = [application3], users = [user7], next_id = 8, writes = []\<rparr>
     = Some (payment1\<lparr>status := ''failed'', verified := True\<rparr>)
 \<and> verified (payment1\<lparr>status := ''failed'', verified := True\<rparr>)
 \<and> map status (payments (snd (verifyPayment (gateway_reports ''success'' (Some 1000)) no_faults
       Map.empty (Some ''PAY-1'')
       \<lparr>payments = [payment1\<lparr>status := ''failed'', verified := True\<rparr>],
        applications = [application3], users = [user7], next_id = 8,
        writes = ([] :: db_write list)\<rparr>))) = [''failed'']"
proof -
  let ?p = "payment1\<lparr>status := ''failed'', verified := True\<rparr>"
  let ?s = "\<lparr>payments = [?p], applications = [application3], users = [user7], next_id = 8,
             writes = ([] :: db_write list)\<rparr>"
  have found: "Payment_findOne (\<lambda>p. reference p = ''PAY-1'') ?s = Some ?p"
    by (simp add: Payment_findOne_def payment1_def)
  have settled: "verified ?p"
    by simp
  from verify_leaves_settled_payment [OF found settled,
      of "gateway_reports ''success'' (Some 1000)" no_faults Map.empty]
  show ?thesis
    using found settled by (simp add: payment1_def)
qed

text \<open>
  C2, as the specification has it, fails for a terminal status that is not a settlement.
  \<open>PAY-1\<close> is pending and past its \<open>expiresAt\<close>; initialize marks it \<open>expired\<close> (and
  creates the row of a new Payment), leaving \<open>verified = false\<close>; a verify call for
  \<open>PAY-1\<close> on which the gateway reports success then changes its status from \<open>expired\<close>
  to \<open>success\<close>.
\<close>

theorem expired_payment_settled_by_verify:
  "map status (payments (snd (initializePayment (gateway_reports ''success'' (Some 1000)) no_faults
        Map.empty 86400001 ''PAY-86400001-X'' body1 store1))) = [''expired'', ''pending'']
 \<and> map status (payments (snd (verifyPayment (gateway_reports ''success'' (Some 1000)) no_faults
        Map.empty (Some ''PAY-1'')
        (snd (initializePayment (gateway_reports ''success'' (Some 1000)) no_faults Map.empty
        86400001 ''PAY-86400001-X'' body1 store1))))) = [''success'', ''pending'']"
  by (simp add: verify_defs init_defs fixture_defs db_defs)

text \<open>
  C1. The claim is that a second delivery of the same outcome runs no second cascade and
  changes nothing. The code does otherwise on the webhook path. On the controller,
  \<open>handleWebhook\<close> for \<open>charge.success\<close> settles \<open>PAY-1\<close> and runs the cascade, and the
  same webhook delivered again saves the Payment and runs the cascade again; so does the
  webhook after a verify call has settled the Payment. Through the router, where \<open>this\<close> is
  undefined, the webhook answers 500 and nothing is written at all, so two webhook
  deliveries give no cascade.
\<close>

theorem duplicate_charge_webhook_runs_cascade_again:
  "writes (snd (handleWebhook Controller platform1 no_faults Map.empty None (hook ''charge.success'')
            (snd (handleWebhook Controller platform1 no_faults Map.empty None
                    (hook ''charge.success'') store1))))
     = [PaymentSave 1, ApplicationUpdate 3, UserUpdate 7,
        PaymentSave 1, ApplicationUpdate 3, UserUpdate 7]
 \<and> writes (snd (handleWebhook Controller platform1 no_faults Map.empty None (hook ''charge.success'')
            (snd (verifyPayment (gateway_reports ''success'' (Some 1000)) no_faults Map.empty
                    (Some ''PAY-1'') store1))))
     = [PaymentSave 1, ApplicationUpdate 3, UserUpdate 7,
        PaymentSave 1, ApplicationUpdate 3, UserUpdate 7]
 \<and> post_webhook platform1 no_faults Map.empty None (hook ''charge.success'') store1
     = (\<lparr>statusCode = 500, success = False, message = None,
         content = Exception (TypeError ''this.processSuccessfulCharge'')\<rparr>, store1)"
  by (simp add: hook_defs verify_defs fixture_defs db_defs)

section \<open>A verify call and a webhook in flight together\<close>

lemma past_guard_turn:
  assumes "past_guard (verify_task c)"
  shows "db (verify_turn gw flt e c) = db c"
    and "charge_task (verify_turn gw flt e c) = charge_task c"
    and "past_guard (verify_task (verify_turn gw flt e c))"
  using assms
  by (cases "verify_task c";
      simp add: past_guard_def verify_turn_def verify_loaded_settled)+

lemma charge_turn_verify_task:
  "verify_task (charge_turn flt c) = verify_task c"
  by (simp add: charge_turn_def split: charge_task.splits stage.splits prod.splits)

lemma charge_turn_cong:
  assumes "db c = db c'" and "charge_task c = charge_task c'"
  shows "db (charge_turn flt c) = db (charge_turn flt c')"
    and "charge_task (charge_turn flt c) = charge_task (charge_turn flt c')"
  using assms
  by (auto simp add: charge_turn_def split: charge_task.splits stage.splits prod.splits)

text \<open>Once the verify task is past its guard, the store evolves as if the schedule held
  the webhook's turns only.\<close>

lemma run_past_guard:
  assumes "past_guard (verify_task c)" and "db c = db c'" and "charge_task c = charge_task c'"
  shows "db (run gw flt e sch c) = db (run gw flt e (filter (\<lambda>t. t = ChargeTurn) sch) c')"
  using assms
proof (induction sch arbitrary: c c')
  case Nil
  then show ?case by simp
next
  case (Cons t sch)
  show ?case
  proof (cases t)
    case VerifyTurn
    have "db (run gw flt e sch (verify_turn gw flt e c))
            = db (run gw flt e (filter (\<lambda>t. t = ChargeTurn) sch) c')"
    proof (rule Cons.IH)
      show "past_guard (verify_task (verify_turn gw flt e c))"
        by (rule past_guard_turn(3) [OF Cons.prems(1)])
      show "db (verify_turn gw flt e c) = db c'"
        using past_guard_turn(1) [OF Cons.prems(1)] Cons.prems(2) by simp
      show "charge_task (verify_turn gw flt e c) = charge_task c'"
        using past_guard_turn(2) [OF Cons.prems(1)] Cons.prems(3) by simp
    qed
    with VerifyTurn show ?thesis by simp
  next
    case ChargeTurn
    have "db (run gw flt e sch (charge_turn flt c))
            = db (run gw flt e (filter (\<lambda>t. t = ChargeTurn) sch) (charge_turn flt c'))"
    proof (rule Cons.IH)
      show "past_guard (verify_task (charge_turn flt c))"
        using Cons.prems(1) by (simp add: charge_turn_verify_task)
      show "db (charge_turn flt c) = db (charge_turn flt c')"
        by (rule charge_turn_cong(1) [OF Cons.prems(2) Cons.prems(3)])
      show "charge_task (charge_turn flt c) = charge_task (charge_turn flt c')"
        by (rule charge_turn_cong(2) [OF Cons.prems(2) Cons.prems(3)])
    qed
    with ChargeTurn show ?thesis by simp
  qed
qed

text \<open>The two parts of each handler, run one after the other with nothing in between,
  are the handler.\<close>

lemma verify_turns_are_verifyPayment:
  "verify_task c = Verify_request query \<Longrightarrow>
   verify_turn gw flt e (verify_turn gw flt e c) =
     c\<lparr>verify_task := Verify_responded (fst (verifyPayment gw flt e query (db c))),
       db := snd (verifyPayment gw flt e query (db c))\<rparr>"
  by (simp add: verify_turn_def verifyPayment_def verifyPayment_try_def
      split: stage.splits prod.splits)

lemma charge_turns_are_processSuccessfulCharge:
  "charge_task c = Charge_request data_opt \<Longrightarrow>
   charge_turn flt (charge_turn flt c) =
     c\<lparr>charge_task := Charge_returned (fst (processSuccessfulCharge flt data_opt (db c))),
       db := snd (processSuccessfulCharge flt data_opt (db c))\<rparr>"
  by (simp add: charge_turn_def processSuccessfulCharge_def split: stage.splits prod.splits)

text \<open>A verify handler that has read an unverified Payment commits and runs the cascade
  in its next turn, whatever has been written to the store in between: its guard looks at
  the document it holds.\<close>

lemma stale_guard_commits:
  assumes "verify_task c = Verify_read ref payment"
      and "\<not> verified (doc payment)"
      and "transaction_verify gw ref = Inr (Some vd)"
      and "gw_status vd = ''success''"
      and "application_doc payment = Some a"
      and "user_doc payment = Some u"
      and "\<not> flt Verify_payment_save"
      and "\<not> flt Verify_Application_update_paid"
      and "\<not> flt Verify_User_update"
  shows "writes (db (verify_turn gw flt e c)) =
           writes (db c) @ [PaymentSave (pid (doc payment)), ApplicationUpdate (a_id a),
                            UserUpdate (u_id u)]"
  using assms
  by (simp add: verify_turn_def verify_loaded_def service_verifyPayment_def Let_def
      Payment_save_def Application_findByIdAndUpdate_def User_findByIdAndUpdate_def)

text \<open>
  C3, as the code has it. Nothing in the code is an atomic conditional update: the guard of
  verify is a test of \<open>verified\<close> on the document the handler has read. A single
  transition is therefore kept only from the moment a commit is in the store: when the
  verify handler reads the Payment after it has been settled, its turns add nothing to the
  store, whatever the schedule, and the store evolves by the webhook's turns alone.
\<close>

theorem verify_reading_after_commit_adds_nothing:
  assumes "verify_task c = Verify_request (Some ref)"
      and "Payment_findOne (\<lambda>p. reference p = ref) (db c) = Some p"
      and "verified p"
  shows "db (run gw flt e (VerifyTurn # sch) c)
           = db (run gw flt e (filter (\<lambda>t. t = ChargeTurn) sch) c)"
proof -
  have "past_guard (verify_task (verify_turn gw flt e c))"
   and "db (verify_turn gw flt e c) = db c"
   and "charge_task (verify_turn gw flt e c) = charge_task c"
    using assms
    by (simp_all add: verify_turn_def verify_lookup_def past_guard_def populate_def)
  from run_past_guard [OF this] show ?thesis
    by simp
qed

theorem verify_reading_after_commit_adds_nothing_witness:
  "verify_task (run (gateway_reports ''success'' (Some 1000)) no_faults Map.empty
                  [ChargeTurn, ChargeTurn] (in_flight_together ''PAY-1'' charge1 store1))
     = Verify_request (Some ''PAY-1'')
 \<and> map verified (payments (db (run (gateway_reports ''success'' (Some 1000)) no_faults Map.empty
                  [ChargeTurn, ChargeTurn] (in_flight_together ''PAY-1'' charge1 store1))))
     = [True]
 \<and> writes (db (run (gateway_reports ''success'' (Some 1000)) no_faults Map.empty
                  [ChargeTurn, ChargeTurn, VerifyTurn, VerifyTurn]
                  (in_flight_together ''PAY-1'' charge1 store1)))
     = [PaymentSave 1, ApplicationUpdate 3, UserUpdate 7]"
proof -
  let ?gw = "gateway_reports ''success'' (Some 1000)"
  let ?c = "run ?gw no_faults Map.empty [ChargeTurn, ChargeTurn]
              (in_flight_together ''PAY-1'' charge1 store1)"
  let ?p = "payment1\<lparr>status := ''success'', paidAt := Some 1000, verified := True\<rparr>"
  have task: "verify_task ?c = Verify_request (Some ''PAY-1'')"
    by (simp add: race_defs hook_defs fixture_defs db_defs)
  have found: "Payment_findOne (\<lambda>p. reference p = ''PAY-1'') (db ?c) = Some ?p"
    by (simp add: race_defs hook_defs fixture_defs db_defs)
  have settled: "verified ?p"
    by simp
  from verify_reading_after_commit_adds_nothing [OF task found settled, of ?gw no_faults Map.empty
      "[VerifyTurn]"]
  have "db (run ?gw no_faults Map.empty [VerifyTurn, VerifyTurn] ?c) = db ?c"
    by simp
  moreover have "run ?gw no_faults Map.empty [ChargeTurn, ChargeTurn, VerifyTurn, VerifyTurn]
                   (in_flight_together ''PAY-1'' charge1 store1)
                 = run ?gw no_faults Map.empty [VerifyTurn, VerifyTurn] ?c"
    by simp
  moreover have "writes (db ?c) = [PaymentSave 1, ApplicationUpdate 3, UserUpdate 7]"
    by (simp add: race_defs hook_defs fixture_defs db_defs)
  moreover have "map verified (payments (db ?c)) = [True]"
    by (simp add: race_defs hook_defs fixture_defs db_defs)
  ultimately show ?thesis
    using task by simp
qed

text \<open>
  C3, as the specification has it, fails. A verify call and a \<open>charge.success\<close> webhook
  for \<open>PAY-1\<close> are in flight together and the gateway reports success. The verify handler
  reads the pending Payment, the webhook then runs to its end (one transition, one
  cascade), and the verify handler goes on with the document it read: its guard passes,
  it saves the Payment and runs the cascade a second time.
\<close>

theorem verify_and_webhook_both_commit:
  "writes (db (run (gateway_reports ''success'' (Some 1000)) no_faults Map.empty
                [VerifyTurn, ChargeTurn, ChargeTurn, VerifyTurn]
                (in_flight_together ''PAY-1'' charge1 store1)))
     = [PaymentSave 1, ApplicationUpdate 3, UserUpdate 7,
        PaymentSave 1, ApplicationUpdate 3, UserUpdate 7]"
  by (simp add: race_defs hook_defs verify_defs fixture_defs db_defs)

section \<open>The webhook's signature and acknowledgement\<close>

text \<open>
  C4, as the code has it. With no webhook secret configured (the variable unset or empty)
  \<open>verifyWebhookSignature\<close> accepts every webhook, whatever the signature and whatever
  else the environment holds, \<open>NODE_ENV\<close> included, and the handler never answers 401:
  it goes on to dispatch the event.
\<close>

theorem webhook_signature_fails_open:
  assumes "e ''PAYSTACK_WEBHOOK_SECRET'' = None \<or> e ''PAYSTACK_WEBHOOK_SECRET'' = Some []"
  shows "verifyWebhookSignature pf e hook_payload signature
       \<and> statusCode (fst (handleWebhook this pf flt e signature hook_payload s)) \<noteq> 401"
  using assms
  by (auto simp add: verifyWebhookSignature_def handleWebhook_def handleWebhook_try_def
      split: receiver.splits prod.splits sum.splits)

theorem webhook_signature_fails_open_witness:
  "(production ''PAYSTACK_WEBHOOK_SECRET'' = None \<or> production ''PAYSTACK_WEBHOOK_SECRET'' = Some [])
 \<and> production ''NODE_ENV'' = Some ''production''
 \<and> verifyWebhookSignature platform1 production (hook ''charge.success'') None
 \<and> statusCode (fst (handleWebhook Controller platform1 no_faults production None
                       (hook ''charge.success'') store1)) \<noteq> 401"
proof -
  have unset: "production ''PAYSTACK_WEBHOOK_SECRET'' = None
             \<or> production ''PAYSTACK_WEBHOOK_SECRET'' = Some []"
    by (simp add: production_def)
  from webhook_signature_fails_open
    [where e = production and pf = platform1 and hook_payload = "hook ''charge.success''"
       and signature = None and this = Controller and flt = no_faults and s = store1, OF unset]
  show ?thesis
    by (simp add: production_def)
qed

text \<open>
  C4, as the specification has it, fails: in an environment with \<open>NODE_ENV = production\<close>
  and no secret, a \<open>charge.success\<close> webhook with no signature at all is accepted, and on
  the controller it settles \<open>PAY-1\<close>.
\<close>

theorem unsigned_webhook_accepted_in_production:
  "production ''NODE_ENV'' = Some ''production''
 \<and> production ''PAYSTACK_WEBHOOK_SECRET'' = None
 \<and> verifyWebhookSignature platform1 production (hook ''charge.success'') None
 \<and> map status (payments store1) = [''pending'']
 \<and> map status (payments (snd (handleWebhook Controller platform1 no_faults production None
                                  (hook ''charge.success'') store1))) = [''success'']"
  by (simp add: hook_defs fixture_defs db_defs)

text \<open>What \<open>handleWebhook\<close> on the controller answers to an authenticated
  \<open>charge.success\<close> for a known reference, and the store after each step of
  \<open>processSuccessfulCharge\<close>.\<close>

lemma Application_findById_id: "Application_findById i s = Some a \<Longrightarrow> a_id a = i"
  by (auto simp add: Application_findById_def unselected_def dest: find_Some_holds)

lemma handleWebhook_charge:
  assumes "verifyWebhookSignature pf e hook_payload signature"
    and "event hook_payload = Some ''charge.success''" and "hook_data hook_payload = Some data"
      and "c_metadata data \<noteq> MetaBadText" and "\<not> flt Charge_Payment_findOne"
      and "Payment_findOne (\<lambda>p. reference p = c_reference data) s = Some found"
  shows "handleWebhook Controller pf flt e signature hook_payload s =
      (case charge_loaded flt data (populate s found) s of
         (Inl x, s') \<Rightarrow>
           (\<lparr>statusCode = 500, success = False, message = None, content = Exception x\<rparr>, s')
       | (Inr u, s') \<Rightarrow>
           (\<lparr>statusCode = 200, success = True, message = None, content = NoBody\<rparr>, s'))"
    using assms
    by (simp add: handleWebhook_def handleWebhook_try_def processSuccessfulCharge_def
        charge_lookup_def split: prod.splits sum.splits)


lemma charge_loaded_steps:
  "charge_loaded flt data (populate s found) s =
      (if flt Charge_payment_save then (Inl (DbError Charge_payment_save), s)
       else if Application_findById (application found) s \<noteq> None \<and> flt Charge_Application_update
       then (Inl (DbError Charge_Application_update),
             Payment_save
               (found\<lparr>status := ''success'', paidAt := Some (new_Date (c_paid_at data)),
                      verified := True\<rparr>) s)
       else if find (\<lambda>u. u_id u = user found) (users s) = None
       then (Inl (TypeError ''payment.user._id''),
             (case Application_findById (application found) s of
                None \<Rightarrow> (\<lambda>x. x)
              | Some a \<Rightarrow>
                  Application_findByIdAndUpdate (application found)
                    (\<lambda>x. x\<lparr>a_status := ''enrolled'', a_paymentStatus := ''paid''\<rparr>))
               (Payment_save
                  (found\<lparr>status := ''success'', paidAt := Some (new_Date (c_paid_at data)),
                         verified := True\<rparr>) s))
       else if flt Charge_User_update
       then (Inl (DbError Charge_User_update),
             (case Application_findById (application found) s of
                None \<Rightarrow> (\<lambda>x. x)
              | Some a \<Rightarrow>
                  Application_findByIdAndUpdate (application found)
                    (\<lambda>x. x\<lparr>a_status := ''enrolled'', a_paymentStatus := ''paid''\<rparr>))
               (Payment_save
                  (found\<lparr>status := ''success'', paidAt := Some (new_Date (c_paid_at data)),
                         verified := True\<rparr>) s))
       else (Inr (),
             User_findByIdAndUpdate (user found)
               (map_option a_id (Application_findById (application found) s))
               ((case Application_findById (application found) s of
                   None \<Rightarrow> (\<lambda>x. x)
                 | Some a \<Rightarrow>
                     Application_findByIdAndUpdate (application found)
                       (\<lambda>x. x\<lparr>a_status := ''enrolled'', a_paymentStatus := ''paid''\<rparr>))
                  (Payment_save
                     (found\<lparr>status := ''success'', paidAt := Some (new_Date (c_paid_at data)),
                            verified := True\<rparr>) s))))"
proof -
  have saved: "Payment_save
                 (found\<lparr>status := ''success'', paidAt := Some (new_Date (c_paid_at data)),
                        verified := True,
                        metadata := (metadata found)\<lparr>paystackWebhookData := Some data\<rparr>\<rparr>) s
             = Payment_save
                 (found\<lparr>status := ''success'', paidAt := Some (new_Date (c_paid_at data)),
                        verified := True\<rparr>) s"
    by (simp add: Payment_save_def)
  show ?thesis
  proof (cases "Application_findById (application found) s")
    case no_app: None
    show ?thesis
    proof (cases "find (\<lambda>u. u_id u = user found) (users s)")
      case None
      with no_app saved show ?thesis
        by (simp add: charge_loaded_def populate_def Let_def)
    next
      case (Some u)
      then have "u_id u = user found"
        by (auto dest: find_Some_holds)
      with no_app Some saved show ?thesis
        by (simp add: charge_loaded_def populate_def Let_def User_findByIdAndUpdate_def)
    qed
  next
    case app: (Some a)
    then have a: "a_id a = application found"
      by (rule Application_findById_id)
    show ?thesis
    proof (cases "find (\<lambda>u. u_id u = user found) (users s)")
      case None
      with app a saved show ?thesis
        by (simp add: charge_loaded_def populate_def Let_def)
    next
      case (Some u)
      then have "u_id u = user found"
        by (auto dest: find_Some_holds)
      with app a Some saved show ?thesis
        by (simp add: charge_loaded_def populate_def Let_def User_findByIdAndUpdate_def)
    qed
  qed
qed


text \<open>
  C5, as the code has it. For a webhook whose signature authenticates: an event type
  outside the three the \<open>switch\<close> names is acknowledged with 200 and changes nothing. A
  \<open>charge.success\<close> handled on the controller, for a reference with a Payment, is
  answered with 500 when the Payment save fails (nothing is written), with 500 when the
  Application update of the cascade fails (the Payment stays saved), with 500 when the
  user is missing or the User update fails (the Payment stays saved and the Application
  updated), and is acknowledged with 200 only when every step went through.
\<close>

theorem webhook_acknowledgement:
  assumes "verifyWebhookSignature pf e hook_payload signature"
  shows "(event hook_payload \<noteq> Some ''charge.success''
          \<and> event hook_payload \<noteq> Some ''transfer.success''
          \<and> event hook_payload \<noteq> Some ''invoice.payment_failed'' \<longrightarrow>
            handleWebhook this pf flt e signature hook_payload s =
              (\<lparr>statusCode = 200, success = True, message = None, content = NoBody\<rparr>, s))
       \<and> (event hook_payload = Some ''charge.success'' \<and> hook_data hook_payload = Some data
          \<and> c_metadata data \<noteq> MetaBadText \<and> \<not> flt Charge_Payment_findOne
          \<and> Payment_findOne (\<lambda>p. reference p = c_reference data) s = Some found \<longrightarrow>
            handleWebhook Controller pf flt e signature hook_payload s =
              (let failed = (\<lambda>x. \<lparr>statusCode = 500, success = False, message = None,
                                   content = Exception x\<rparr>);
                   linked = Application_findById (application found) s;
                   saved = Payment_save
                             (found\<lparr>status := ''success'',
                                    paidAt := Some (new_Date (c_paid_at data)),
                                    verified := True\<rparr>) s;
                   updated = (case linked of
                                None \<Rightarrow> saved
                              | Some a \<Rightarrow>
                                  Application_findByIdAndUpdate (application found)
                                    (\<lambda>x. x\<lparr>a_status := ''enrolled'', a_paymentStatus := ''paid''\<rparr>)
                                    saved)
               in if flt Charge_payment_save
                  then (failed (DbError Charge_payment_save), s)
                  else if linked \<noteq> None \<and> flt Charge_Application_update
                  then (failed (DbError Charge_Application_update), saved)
                  else if find (\<lambda>u. u_id u = user found) (users s) = None
                  then (failed (TypeError ''payment.user._id''), updated)
                  else if flt Charge_User_update
                  then (failed (DbError Charge_User_update), updated)
                  else (\<lparr>statusCode = 200, success = True, message = None, content = NoBody\<rparr>,
                        User_findByIdAndUpdate (user found) (map_option a_id linked) updated)))"
proof (intro conjI impI)
  assume "event hook_payload \<noteq> Some ''charge.success''
          \<and> event hook_payload \<noteq> Some ''transfer.success''
          \<and> event hook_payload \<noteq> Some ''invoice.payment_failed''"
  with assms show "handleWebhook this pf flt e signature hook_payload s =
              (\<lparr>statusCode = 200, success = True, message = None, content = NoBody\<rparr>, s)"
    by (simp add: handleWebhook_def handleWebhook_try_def)
next
  assume charge: "event hook_payload = Some ''charge.success'' \<and> hook_data hook_payload = Some data
          \<and> c_metadata data \<noteq> MetaBadText \<and> \<not> flt Charge_Payment_findOne
          \<and> Payment_findOne (\<lambda>p. reference p = c_reference data) s = Some found"
  then have "handleWebhook Controller pf flt e signature hook_payload s =
      (case charge_loaded flt data (populate s found) s of
         (Inl x, s') \<Rightarrow>
           (\<lparr>statusCode = 500, success = False, message = None, content = Exception x\<rparr>, s')
       | (Inr u, s') \<Rightarrow>
           (\<lparr>statusCode = 200, success = True, message = None, content = NoBody\<rparr>, s'))"
    using assms by (intro handleWebhook_charge) simp_all
  then show "handleWebhook Controller pf flt e signature hook_payload s =
              (let failed = (\<lambda>x. \<lparr>statusCode = 500, success = False, message = None,
                                   content = Exception x\<rparr>);
                   linked = Application_findById (application found) s;
                   saved = Payment_save
                             (found\<lparr>status := ''success'',
                                    paidAt := Some (new_Date (c_paid_at data)),
                                    verified := True\<rparr>) s;
                   updated = (case linked of
                                None \<Rightarrow> saved
                              | Some a \<Rightarrow>
                                  Application_findByIdAndUpdate (application found)
                                    (\<lambda>x. x\<lparr>a_status := ''enrolled'', a_paymentStatus := ''paid''\<rparr>)
                                    saved)
               in if flt Charge_payment_save
                  then (failed (DbError Charge_payment_save), s)
                  else if linked \<noteq> None \<and> flt Charge_Application_update
                  then (failed (DbError Charge_Application_update), saved)
                  else if find (\<lambda>u. u_id u = user found) (users s) = None
                  then (failed (TypeError ''payment.user._id''), updated)
                  else if flt Charge_User_update
                  then (failed (DbError Charge_User_update), updated)
                  else (\<lparr>statusCode = 200, success = True, message = None, content = NoBody\<rparr>,
                        User_findByIdAndUpdate (user found) (map_option a_id linked) updated))"
    by (simp add: charge_loaded_steps Let_def split: option.splits)
qed

theorem webhook_acknowledgement_witness:
  "verifyWebhookSignature platform1 Map.empty (hook ''subscription.create'') None
 \<and> handleWebhook Undefined platform1 no_faults Map.empty None (hook ''subscription.create'') store1
     = (\<lparr>statusCode = 200, success = True, message = None, content = NoBody\<rparr>, store1)
 \<and> verifyWebhookSignature platform1 Map.empty (hook ''charge.success'') None
 \<and> Payment_findOne (\<lambda>p. reference p = c_reference charge1) store1 = Some payment1
 \<and> statusCode (fst (handleWebhook Controller platform1 no_faults Map.empty None
                       (hook ''charge.success'') store1)) = 200
 \<and> handleWebhook Controller platform1 (no_faults(Charge_payment_save := True)) Map.empty None
      (hook ''charge.success'') store1
     = (\<lparr>statusCode = 500, success = False, message = None,
         content = Exception (DbError Charge_payment_save)\<rparr>, store1)
 \<and> statusCode (fst (handleWebhook Controller platform1
                       (no_faults(Charge_User_update := True)) Map.empty None
                       (hook ''charge.success'') store1)) = 500
 \<and> writes (snd (handleWebhook Controller platform1
                   (no_faults(Charge_User_update := True)) Map.empty None
                   (hook ''charge.success'') store1)) = [PaymentSave 1, ApplicationUpdate 3]"
proof -
  have other: "verifyWebhookSignature platform1 Map.empty (hook ''subscription.create'') None"
    by (simp add: verifyWebhookSignature_def)
  have charge: "verifyWebhookSignature platform1 Map.empty (hook ''charge.success'') None"
    by (simp add: verifyWebhookSignature_def)
  have found: "Payment_findOne (\<lambda>p. reference p = c_reference charge1) store1 = Some payment1"
    by (simp add: Payment_findOne_def store1_def payment1_def charge1_def)
  have app: "Application_findById (application payment1) store1 = Some (unselected application3)"
    by (simp add: Application_findById_def store1_def payment1_def application3_def)
  have usr: "find (\<lambda>u. u_id u = user payment1) (users store1) = Some user7"
    by (simp add: store1_def payment1_def user7_def)
  from webhook_acknowledgement
      [OF other, where this = Undefined and data = charge1 and flt = no_faults
         and found = payment1 and s = store1]
    webhook_acknowledgement
      [OF charge, where this = Undefined and data = charge1 and flt = no_faults
         and found = payment1 and s = store1]
    webhook_acknowledgement
      [OF charge, where this = Undefined and data = charge1
         and flt = "no_faults(Charge_payment_save := True)" and found = payment1 and s = store1]
    webhook_acknowledgement
      [OF charge, where this = Undefined and data = charge1
         and flt = "no_faults(Charge_User_update := True)" and found = payment1 and s = store1]
  show ?thesis
    using other charge found app usr
    by (simp add: hook_def no_faults_def Payment_save_def Application_findByIdAndUpdate_def
        User_findByIdAndUpdate_def Let_def charge1_def store1_def payment1_def application3_def
        unselected_def)
qed

text \<open>
  C5, as the specification has it, fails: the signature authenticates, the event is
  \<open>charge.success\<close>, the Payment is saved as \<open>success\<close>, the Application update of the
  cascade fails, and the handler answers 500, not 200.
\<close>

theorem webhook_answers_500_when_cascade_fails:
  "verifyWebhookSignature platform1 Map.empty (hook ''charge.success'') None
 \<and> handleWebhook Controller platform1 (no_faults(Charge_Application_update := True)) Map.empty
      None (hook ''charge.success'') store1
    = (\<lparr>statusCode = 500, success = False, message = None,
        content = Exception (DbError Charge_Application_update)\<rparr>,
       store1\<lparr>payments :=
                [payment1\<lparr>status := ''success'', paidAt := Some 1000, verified := True\<rparr>],
              writes := [PaymentSave 1]\<rparr>)"
  by (simp add: hook_defs fixture_defs db_defs)

text \<open>What the router and the class add to that: called with \<open>this\<close> undefined, as the
  router calls it, the handler answers every authenticated \<open>charge.success\<close> with 500
  and writes nothing; \<open>transfer.success\<close> and \<open>invoice.payment_failed\<close> call methods the
  class does not define and are answered with 500 on any receiver.\<close>

lemma post_webhook_charge_success:
  "verifyWebhookSignature pf e hook_payload signature \<Longrightarrow>
   event hook_payload = Some ''charge.success'' \<Longrightarrow>
   post_webhook pf flt e signature hook_payload s =
     (\<lparr>statusCode = 500, success = False, message = None,
       content = Exception (TypeError ''this.processSuccessfulCharge'')\<rparr>, s)"
  by (simp add: post_webhook_def handleWebhook_def handleWebhook_try_def)

lemma handleWebhook_undefined_methods:
  "verifyWebhookSignature pf e hook_payload signature \<Longrightarrow>
   event hook_payload = Some ''transfer.success''
     \<or> event hook_payload = Some ''invoice.payment_failed'' \<Longrightarrow>
   statusCode (fst (handleWebhook this pf flt e signature hook_payload s)) = 500
   \<and> snd (handleWebhook this pf flt e signature hook_payload s) = s"
  by (auto simp add: handleWebhook_def handleWebhook_try_def)

section \<open>Initialization: rollback and reuse\<close>

text \<open>The document that \<open>initializePayment\<close> loads has no \<open>password\<close>, so the
  \<open>confirmPassword\<close> validator fails on it and \<open>application.save()\<close> rejects.\<close>

lemma loaded_application_does_not_validate:
  "Application_findById i s = Some a \<Longrightarrow>
   Application_save (a\<lparr>a_payment := x\<rparr>) s' = Inl (ValidationError ''confirmPassword'')"
  by (auto simp add: Application_findById_def unselected_def Application_save_def
      confirmPassword_validator_def split: option.splits)

text \<open>Hence every request that creates a Payment row ends at line 102: the row is
  stored, the save of the link rejects, the answer is 500 \<open>Server error\<close>, and neither
  the gateway call nor the rollback is reached, whatever the gateway would answer.\<close>

lemma initialize_ends_at_the_link:
  assumes "Application_findById (req_applicationId b) s = Some a"
      and "Payment_findOne
             (\<lambda>p. payment.application p = req_applicationId b \<and> status p = ''pending'') s = None"
      and "find (\<lambda>u. u_email u = req_email b) (users s) = Some u"
      and "\<not> flt Init_Application_findById" and "\<not> flt Init_Payment_findOne"
      and "\<not> flt Init_User_findOne" and "\<not> flt Init_Payment_create"
  shows "initializePayment gw flt e now fr b s =
           (server_error (ValidationError ''confirmPassword''),
            Payment_create (new_payment now fr b (u_id u) (next_id s)) s)"
  using assms loaded_application_does_not_validate [OF assms(1)]
  by (simp add: initializePayment_def initializePayment_try_def create_and_checkout_def Let_def
      or_server_error_def)

text \<open>
  C6. The claim is that an initialize request whose checkout session fails leaves no
  Payment row behind. The code has the rollback (lines 116 to 126) but never reaches it:
  with application 3 stored as \<open>submitApplication\<close> stores it, no pending Payment and the
  gateway down, the request creates Payment row 8, \<open>application.save()\<close> at line 102
  rejects on the \<open>confirmPassword\<close> validator, the answer is 500 \<open>Server error\<close>, and row
  8 stays in the store as a pending Payment; no delete is issued.
\<close>

theorem initialize_leaves_its_row:
  "fst (initializePayment gateway_down no_faults Map.empty 5 ''PAY-5-X'' body1 store0)
     = server_error (ValidationError ''confirmPassword'')
 \<and> payments (snd (initializePayment gateway_down no_faults Map.empty 5 ''PAY-5-X'' body1 store0))
     = [new_payment 5 ''PAY-5-X'' body1 7 8]
 \<and> status (new_payment 5 ''PAY-5-X'' body1 7 8) = ''pending''
 \<and> payments store0 = []
 \<and> writes (snd (initializePayment gateway_down no_faults Map.empty 5 ''PAY-5-X'' body1 store0))
     = [PaymentCreate 8]"
  by (simp add: init_defs fixture_defs db_defs)

text \<open>
  C7. The claim is that initializing again while a pending Payment is not overdue returns
  a checkout session tied to that Payment's reference. The code opens a new session at the
  gateway without passing the Payment's reference and returns the gateway's answer as it
  is, without storing the session's reference as the branch for a new Payment does (lines
  128 to 130): with
  \<open>PAY-1\<close> pending and the gateway answering session \<open>T2\<close>, the response carries
  reference \<open>T2\<close>, the store is unchanged and still knows \<open>PAY-1\<close> only, and a verify
  call for \<open>T2\<close> finds no Payment.
\<close>

theorem reinitialize_returns_unstored_reference:
  "initializePayment (gateway_reports [] None) no_faults Map.empty 5 ''PAY-5-X'' body1 store1
     = (reply 200 True ''Payment initialized successfully''
          (CheckoutBody \<lparr>authorization_url = ''https://checkout.example/T2'',
                          co_reference = ''T2'', access_code = ''ac2''\<rparr>),
        store1)
 \<and> map reference (payments store1) = [''PAY-1'']
 \<and> verifyPayment (gateway_reports ''success'' (Some 1000)) no_faults Map.empty (Some ''T2'') store1
     = (reply 404 False ''Payment not found'' NoBody, store1)"
  by (simp add: init_defs verify_defs fixture_defs db_defs)

text \<open>What does hold of the reuse: no Payment is created, the store is left as it was, and
  the response carries whatever session the gateway opened.\<close>

lemma reinitialize_creates_no_payment:
  assumes "Application_findById (req_applicationId b) s = Some a"
      and "Payment_findOne
             (\<lambda>p. payment.application p = req_applicationId b \<and> status p = ''pending'') s
               = Some existing"
      and "\<not> expiresAt existing < now"
  shows "snd (initializePayment gw flt e now fr b s) = s"
  using assms
  by (simp add: initializePayment_def initializePayment_try_def snd_answer split: sum.splits)

lemma reinitialize_relays_gateway_reference:
  assumes "Application_findById (req_applicationId b) s = Some a"
      and "Payment_findOne
             (\<lambda>p. payment.application p = req_applicationId b \<and> status p = ''pending'') s
               = Some existing"
      and "\<not> expiresAt existing < now"
      and "\<not> flt Init_Application_findById" and "\<not> flt Init_Payment_findOne"
      and "transaction_initialize gw
             \<lparr>ir_email = req_email b, ir_amount = req_amount b * 100,
              ir_metadata = AList.update ''applicationId'' (IdText (req_applicationId b))
                             (AList.update ''paymentId'' (IdText (pid existing)) (req_metadata b)),
              ir_callback_url = frontend e\<rparr> = Inr (Some session)"
  shows "fst (initializePayment gw flt e now fr b s) =
           reply 200 True ''Payment initialized successfully'' (CheckoutBody session)"
  using assms
  by (simp add: initializePayment_def initializePayment_try_def service_initializePayment_def
      or_server_error_def)

end
